theory Spec2Isabelle
  imports Complex_Main "HOL-Library.Code_Target_Nat"
begin

section \<open>Presence-based intrusion alarm: the session and its handlers\<close>

text \<open>
  The repository holds two revisions of one browser script:
  \<^item> \<^verbatim>\<open>src/Auto_alert/device_input/1/script.js\<close>, called revision 1 below
    (definitions with suffix \<open>_v1\<close>);
  \<^item> \<^verbatim>\<open>src/unnamed/part_000\<close>, called revision 2 below (suffix \<open>_v2\<close>): it adds
    the alert overlay, the audio unlock at monitoring start and the
    remove-then-add registration of the input handler.
  \<open>loadFaceMatcher\<close> and \<open>monitorLoop\<close> are the same text in both revisions and are
  modelled once.

  The script is event driven and single threaded. Every handler is modelled as a
  function from the session before it runs to the session after it, with whatever the
  host gives back to it (the detections of a frame, the matcher's answer, the outcome of
  an audio play, the persisted string) as an argument. A handler that waits for the host
  (\<^verbatim>\<open>await\<close>, a promise callback) is modelled as running in one piece with the host's
  answer at hand; what other handlers do while it waits is a step of its own in a run
  (see \<open>step_v1\<close>, \<open>step_v2\<close>). Drawing on the canvas is left out: it writes no
  variable of the script.
\<close>

subsection \<open>Data\<close>

text \<open>
  A JavaScript number as an array element holds it: a finite value (\<open>Finite 0\<close> is
  positive zero), negative zero, an infinity or \<^verbatim>\<open>NaN\<close>.
\<close>

datatype jsnum = Finite real | NegZero | PosInfinity | NegInfinity | NaN

text \<open>
  A face descriptor is the engine's embedding, a \<^verbatim>\<open>Float32Array\<close>. The answer of
  \<^verbatim>\<open>faceMatcher.findBestMatch\<close> is an object with a \<^verbatim>\<open>label\<close> and a
  \<^verbatim>\<open>distance\<close>; the distance is a finite number, read here as the real it denotes.
\<close>

type_synonym descriptor = "jsnum list"

record face_match =
  label :: string
  distance :: real

text \<open>
  \<^verbatim>\<open>new faceapi.FaceMatcher(descriptors, 0.58)\<close>: the labelled classes and the
  threshold the matcher was built with.
\<close>

record matcher =
  labeledDescriptors :: "(string \<times> descriptor list) list"
  distanceThreshold :: real

text \<open>
  The texts the script writes to the status element and passes to \<^verbatim>\<open>alert\<close> are
  Japanese string literals; each literal is one constructor, named after what it says.
  The content of the status element is the list of the pieces written to it: an
  assignment to \<^verbatim>\<open>textContent\<close> or \<^verbatim>\<open>innerHTML\<close> replaces the list, \<^verbatim>\<open>+=\<close> appends.
\<close>

datatype status_text =
    NoFaceForLong         \<comment> \<open>monitorLoop: no face for a long time (check the camera)\<close>
  | IntruderSeen          \<comment> \<open>monitorLoop: suspicious person (unregistered face) detected\<close>
  | OwnerConfirmed        \<comment> \<open>monitorLoop: confirming the owner\<close>
  | OwnerAway             \<comment> \<open>monitorLoop: owner absent\<close>
  | AlarmText             \<comment> \<open>handleInput, revision 1: alarm, illegal operation detected\<close>
  | AlarmHtml             \<comment> \<open>handleInput, revision 2: the same words in a red blinking span\<close>
  | AudioHint             \<comment> \<open>handleInput, revision 2: what to do when no sound comes\<close>
  | MonitoringStarted     \<comment> \<open>start handler: monitoring started\<close>
  | AudioOk               \<comment> \<open>start handler, revision 2: (audio OK)\<close>
  | AudioBlocked          \<comment> \<open>start handler, revision 2: audio is blocked, press start again\<close>
  | PastEnrollment        \<comment> \<open>init: past registration found\<close>
  | ModelsLoaded          \<comment> \<open>loadModels: models loaded, please register\<close>

datatype alert_text =
    RegisterAFaceFirst    \<comment> \<open>start handler: register at least one face\<close>

datatype timer = NextCycle | HideOverlay

datatype overlay_display = DisplayInitial | DisplayFlex | DisplayNone

datatype event_type = Keydown | Mousemove | Click | Visibilitychange

datatype callback = HandleInput | VisibilityListener

text \<open>What a handler does to the host besides writing the script's variables, in order.\<close>

datatype effect =
    Alert alert_text          \<comment> \<open>\<^verbatim>\<open>alert(...)\<close>\<close>
  | AudioRewind               \<comment> \<open>\<^verbatim>\<open>alertAudio.currentTime = 0\<close>\<close>
  | AudioPlay real            \<comment> \<open>\<^verbatim>\<open>alertAudio.play()\<close>, with the volume it is called at\<close>
  | AudioPause                \<comment> \<open>\<^verbatim>\<open>alertAudio.pause()\<close>\<close>
  | CallMonitorLoop           \<comment> \<open>\<^verbatim>\<open>monitorLoop()\<close> called by the start handler\<close>
  | SetTimeout timer nat      \<comment> \<open>\<^verbatim>\<open>setTimeout(f, ms)\<close>\<close>
  | ConsoleLog
  | ConsoleError

text \<open>
  The variables of the script. \<open>ownerAbsent\<close> is the property \<^verbatim>\<open>window.ownerAbsent\<close>:
  \<open>None\<close> while it is undefined (no cycle has finished yet), which JavaScript reads as
  false in a condition. \<open>listeners\<close> is the event listener list of \<^verbatim>\<open>document\<close>.
\<close>

record session =
  faceMatcher :: "matcher option"
  monitoring :: bool
  consecutiveNoFace :: nat
  ownerAbsent :: "bool option"
  isTabVisible :: bool
  status :: "status_text list"
  overlay :: overlay_display
  audioVolume :: real
  listeners :: "(event_type \<times> callback) list"
  trace :: "effect list"

definition truthy :: "bool option \<Rightarrow> bool" where
  "truthy v = (case v of None \<Rightarrow> False | Some b \<Rightarrow> b)"

subsection \<open>The monitoring cycle\<close>

definition NO_FACE_THRESHOLD :: nat where
  "NO_FACE_THRESHOLD = 10"

text \<open>
  \<^verbatim>\<open>consecutiveNoFace++\<close> on a JavaScript number. The counter is an integer-valued
  double that starts at 0 and is only incremented or reset to 0, so it stays between 0
  and \<open>2 ^ 53\<close>: adding one to \<open>2 ^ 53\<close> rounds back to \<open>2 ^ 53\<close>.
\<close>

definition js_increment :: "nat \<Rightarrow> nat" where
  "js_increment n = (if n < 2 ^ 53 then n + 1 else n)"

definition is_owner_label :: "string \<Rightarrow> bool" where
  "is_owner_label l = (l = ''owner_no_mask'' \<or> l = ''owner_mask'')"

text \<open>The two local flags of a cycle.\<close>

record flags =
  ownerPresent :: bool
  intruderDetected :: bool

definition no_flags :: flags where
  "no_flags = \<lparr>ownerPresent = False, intruderDetected = False\<rparr>"

text \<open>The \<^verbatim>\<open>if\<close> / \<^verbatim>\<open>else if\<close> on the best match of one detection.\<close>

definition classify :: "face_match \<Rightarrow> flags \<Rightarrow> flags" where
  "classify bestMatch v =
     (if distance bestMatch < 0.58 \<and> is_owner_label (label bestMatch)
      then v\<lparr>ownerPresent := True\<rparr>
      else if label bestMatch \<noteq> ''unknown''
      then v\<lparr>intruderDetected := True\<rparr>
      else v)"

text \<open>
  The body of \<^verbatim>\<open>resizedDetections.forEach\<close>. \<open>findBestMatch\<close> is the engine's
  \<^verbatim>\<open>FaceMatcher.findBestMatch\<close>, a parameter; resizing a detection keeps its descriptor.
\<close>

definition forEach_body ::
  "(matcher \<Rightarrow> descriptor \<Rightarrow> face_match) \<Rightarrow> matcher option \<Rightarrow> descriptor \<Rightarrow> flags \<Rightarrow> flags"
where
  "forEach_body findBestMatch fm det v =
     (case fm of
        None \<Rightarrow> v
      | Some m \<Rightarrow> classify (findBestMatch m det) v)"

text \<open>
  One run of \<^verbatim>\<open>monitorLoop\<close> whose \<^verbatim>\<open>await detectFaces()\<close> resolved with
  \<open>detections\<close>. Everything after the \<^verbatim>\<open>await\<close> runs without interruption, on the
  session as it is then. (When the engine rejects instead, the function ends there: the
  session is untouched and no next cycle is scheduled.)
\<close>

definition monitorLoop ::
  "(matcher \<Rightarrow> descriptor \<Rightarrow> face_match) \<Rightarrow> descriptor list \<Rightarrow> session \<Rightarrow> session"
where
  "monitorLoop findBestMatch detections s =
     (if \<not> monitoring s then s
      else
        let count = (if length detections = 0 then js_increment (consecutiveNoFace s) else 0);
            v = (if length detections = 0 then no_flags
                 else fold (forEach_body findBestMatch (faceMatcher s)) detections no_flags);
            s1 = s\<lparr>consecutiveNoFace := count, ownerAbsent := Some (\<not> ownerPresent v)\<rparr>;
            s2 = (if NO_FACE_THRESHOLD \<le> consecutiveNoFace s1
                  then s1\<lparr>status := [NoFaceForLong], ownerAbsent := Some True\<rparr>
                  else if intruderDetected v then s1\<lparr>status := [IntruderSeen]\<rparr>
                  else if ownerPresent v then s1\<lparr>status := [OwnerConfirmed]\<rparr>
                  else s1\<lparr>status := [OwnerAway]\<rparr>)
        in s2\<lparr>trace := trace s2 @ [SetTimeout NextCycle 50]\<rparr>)"

text \<open>A matcher's answer that counts as the owner: an owner label, strictly below 0.58.\<close>

definition owner_match :: "face_match \<Rightarrow> bool" where
  "owner_match bm = (is_owner_label (label bm) \<and> distance bm < 0.58)"

text \<open>
  Modelled from the spec: \<^verbatim>\<open>FaceMatcher.findBestMatch\<close> of the engine, which is not under
  \<^verbatim>\<open>src/\<close>. It finds the nearest enrolled class and reports its label only when the
  distance is below the threshold the matcher was built with, and the label
  \<^verbatim>\<open>unknown\<close> (with that distance) otherwise. \<open>thresholded nearest\<close> is that function
  over the engine's search for the nearest class; \<open>honours_threshold\<close> is what it
  guarantees to the script.
\<close>

definition thresholded ::
  "(matcher \<Rightarrow> descriptor \<Rightarrow> face_match) \<Rightarrow> matcher \<Rightarrow> descriptor \<Rightarrow> face_match"
where
  "thresholded nearest m d =
     (if distance (nearest m d) < distanceThreshold m then nearest m d
      else \<lparr>label = ''unknown'', distance = distance (nearest m d)\<rparr>)"

definition honours_threshold :: "(matcher \<Rightarrow> descriptor \<Rightarrow> face_match) \<Rightarrow> bool" where
  "honours_threshold findBestMatch =
     (\<forall>m d. label (findBestMatch m d) \<noteq> ''unknown'' \<longrightarrow>
            distance (findBestMatch m d) < distanceThreshold m)"

subsection \<open>The enrollment store and the matcher\<close>

text \<open>
  The store is kept under the key \<^verbatim>\<open>registeredFaces\<close> of \<^verbatim>\<open>localStorage\<close> as one string.
  \<^verbatim>\<open>JSON.parse\<close> belongs to the host, so a stored string is represented by what
  \<^verbatim>\<open>JSON.parse\<close> makes of it: a string it rejects, a string that parses to a value that is
  false in a condition (\<^verbatim>\<open>null\<close>, \<^verbatim>\<open>false\<close>, \<^verbatim>\<open>0\<close>, the empty string), or a string that
  parses to an object of the store's shape. Strings that parse to a value of any other
  shape are outside this model. The content of the key is a \<open>persisted option\<close>, \<open>None\<close>
  when the key is absent (\<^verbatim>\<open>getItem\<close> returns \<^verbatim>\<open>null\<close>).

  The store is an object with the arrays \<^verbatim>\<open>no_mask\<close> and \<^verbatim>\<open>with_mask\<close>; each holds one
  array per enrolled face, whose elements are numbers, or \<^verbatim>\<open>null\<close> where the stored text
  says so.
\<close>

datatype element = Number jsnum | Null

record store =
  no_mask :: "element list list"
  with_mask :: "element list list"

datatype persisted = Unparseable | FalsyText | StoreText store

datatype parsed = FalsyValue | StoreObject store

datatype exn = SyntaxError

text \<open>
  \<^verbatim>\<open>JSON.parse(localStorage.getItem('registeredFaces'))\<close>. For an absent key the argument
  is \<^verbatim>\<open>null\<close>, which is converted to the string \<^verbatim>\<open>null\<close> and parses to \<^verbatim>\<open>null\<close>. A string
  that is not JSON makes \<^verbatim>\<open>JSON.parse\<close> throw a \<^verbatim>\<open>SyntaxError\<close>.
\<close>

definition JSON_parse :: "persisted option \<Rightarrow> exn + parsed" where
  "JSON_parse item =
     (case item of
        None \<Rightarrow> Inr FalsyValue
      | Some Unparseable \<Rightarrow> Inl SyntaxError
      | Some FalsyText \<Rightarrow> Inr FalsyValue
      | Some (StoreText st) \<Rightarrow> Inr (StoreObject st))"

definition empty_store :: store where
  "empty_store = \<lparr>no_mask = [], with_mask = []\<rparr>"

text \<open>
  The first statement of \<^verbatim>\<open>loadFaceMatcher\<close> (and of \<^verbatim>\<open>registerFace\<close>):
  \<^verbatim>\<open>JSON.parse(...) || { no_mask: [], with_mask: [] }\<close>. No \<^verbatim>\<open>try\<close> stands around it, so
  what \<^verbatim>\<open>JSON.parse\<close> throws leaves the function.
\<close>

definition read_stored :: "persisted option \<Rightarrow> exn + store" where
  "read_stored item =
     (case JSON_parse item of
        Inl e \<Rightarrow> Inl e
      | Inr FalsyValue \<Rightarrow> Inr empty_store
      | Inr (StoreObject st) \<Rightarrow> Inr st)"

text \<open>
  \<^verbatim>\<open>new Float32Array(d)\<close> for an array \<open>d\<close> of the store: it keeps the numbers of \<open>d\<close>,
  which were written from a \<^verbatim>\<open>Float32Array\<close>, and turns \<^verbatim>\<open>null\<close> into 0.
\<close>

fun to_number :: "element \<Rightarrow> jsnum" where
  "to_number (Number x) = x"
| "to_number Null = Finite 0"

definition Float32Array :: "element list \<Rightarrow> descriptor" where
  "Float32Array d = map to_number d"

text \<open>
  \<^verbatim>\<open>loadFaceMatcher\<close>. \<open>Inl\<close> is the exception that leaves the function, with the session
  as it was.
\<close>

definition loadFaceMatcher :: "persisted option \<Rightarrow> session \<Rightarrow> exn + session" where
  "loadFaceMatcher item s =
     (case read_stored item of
        Inl e \<Rightarrow> Inl e
      | Inr stored \<Rightarrow>
          let descriptors =
                (if length (no_mask stored) > 0
                 then [(''owner_no_mask'', map (\<lambda>d. Float32Array d) (no_mask stored))] else []) @
                (if length (with_mask stored) > 0
                 then [(''owner_mask'', map (\<lambda>d. Float32Array d) (with_mask stored))] else [])
          in if length descriptors > 0
             then Inr (s\<lparr>faceMatcher :=
                           Some \<lparr>labeledDescriptors = descriptors, distanceThreshold = 0.58\<rparr>,
                         trace := trace s @ [ConsoleLog]\<rparr>)
             else Inr (s\<lparr>faceMatcher := None\<rparr>))"

text \<open>
  Modelled from the spec: the serialization of the persisted state, one record
  \<^verbatim>\<open>{ no_mask: ..., with_mask: ... }\<close> written as a single value. The script gets it from
  the host's \<^verbatim>\<open>JSON.stringify\<close>, which is not under \<^verbatim>\<open>src/\<close> and is modelled as
  documented: a finite number is written with the digits that read back as the same
  number, but negative zero is written as \<^verbatim>\<open>0\<close>; \<^verbatim>\<open>NaN\<close> and the infinities are written
  as \<^verbatim>\<open>null\<close>; \<^verbatim>\<open>null\<close> is written as \<^verbatim>\<open>null\<close>. \<open>stringify_element\<close> is the element
  that the written text reads back as, and the text written for a store is represented,
  like every stored string, by what \<^verbatim>\<open>JSON.parse\<close> makes of it.
\<close>

fun stringify_number :: "jsnum \<Rightarrow> element" where
  "stringify_number (Finite r) = Number (Finite r)"
| "stringify_number NegZero = Number (Finite 0)"
| "stringify_number PosInfinity = Null"
| "stringify_number NegInfinity = Null"
| "stringify_number NaN = Null"

fun stringify_element :: "element \<Rightarrow> element" where
  "stringify_element (Number x) = stringify_number x"
| "stringify_element Null = Null"

definition JSON_stringify :: "store \<Rightarrow> persisted" where
  "JSON_stringify stored =
     StoreText \<lparr>no_mask = map (map stringify_element) (no_mask stored),
                with_mask = map (map stringify_element) (with_mask stored)\<rparr>"

text \<open>
  The save of \<^verbatim>\<open>registerFace\<close>:
  \<^verbatim>\<open>localStorage.setItem('registeredFaces', JSON.stringify(stored))\<close>, giving the new
  content of the key. (When the storage is full \<^verbatim>\<open>setItem\<close> throws and nothing is saved;
  this is the save that succeeds.)
\<close>

definition save_stored :: "store \<Rightarrow> persisted option" where
  "save_stored stored = Some (JSON_stringify stored)"

text \<open>
  An element that is written and read back as itself: a finite number that is not
  negative zero, or \<^verbatim>\<open>null\<close>.
\<close>

fun json_exact :: "element \<Rightarrow> bool" where
  "json_exact (Number (Finite r)) = True"
| "json_exact (Number x) = False"
| "json_exact Null = True"

subsection \<open>The input handler\<close>

text \<open>
  \<^verbatim>\<open>alertAudio.play()\<close> returns a promise; which way it settles is the host's answer.
  The callbacks on that promise run later; the model runs them at once.
\<close>

datatype play_outcome = PlayResolved | PlayRejected

text \<open>\<^verbatim>\<open>handleInput\<close> of revision 1.\<close>

definition handleInput_v1 :: "play_outcome \<Rightarrow> session \<Rightarrow> session" where
  "handleInput_v1 played s =
     (if truthy (ownerAbsent s) \<and> isTabVisible s
      then s\<lparr>status := [AlarmText],
             trace := trace s @ [AudioRewind, AudioPlay (audioVolume s)] @
                      (case played of PlayResolved \<Rightarrow> [] | PlayRejected \<Rightarrow> [ConsoleLog])\<rparr>
      else s)"

text \<open>\<^verbatim>\<open>handleInput\<close> of revision 2, with the overlay and its 5000 ms timer.\<close>

definition handleInput_v2 :: "play_outcome \<Rightarrow> session \<Rightarrow> session" where
  "handleInput_v2 played s =
     (if truthy (ownerAbsent s) \<and> isTabVisible s
      then s\<lparr>status := [AlarmHtml] @
                       (case played of PlayResolved \<Rightarrow> [] | PlayRejected \<Rightarrow> [AudioHint]),
             overlay := DisplayFlex,
             trace := trace s @
                      [ConsoleLog, SetTimeout HideOverlay 5000, AudioRewind,
                       AudioPlay (audioVolume s)] @
                      (case played of PlayResolved \<Rightarrow> [ConsoleLog]
                                    | PlayRejected \<Rightarrow> [ConsoleError])\<rparr>
      else s)"

subsection \<open>The listener list of the document\<close>

text \<open>
  \<^verbatim>\<open>addEventListener\<close> appends a listener unless the list already holds one with the
  same type and callback; \<^verbatim>\<open>removeEventListener\<close> removes the listener with that type and
  callback, if there is one. (All listeners of the script use the default options.)
\<close>

definition addEventListener ::
  "event_type \<Rightarrow> callback \<Rightarrow> (event_type \<times> callback) list \<Rightarrow> (event_type \<times> callback) list"
where
  "addEventListener t f ls = (if (t, f) \<in> set ls then ls else ls @ [(t, f)])"

definition removeEventListener ::
  "event_type \<Rightarrow> callback \<Rightarrow> (event_type \<times> callback) list \<Rightarrow> (event_type \<times> callback) list"
where
  "removeEventListener t f ls = remove1 (t, f) ls"

subsection \<open>The start button\<close>

text \<open>
  The click handler of \<^verbatim>\<open>startMonitorBtn\<close>, revision 1. The call \<^verbatim>\<open>monitorLoop()\<close> runs
  up to its \<^verbatim>\<open>await\<close> and starts a chain of cycles; it is recorded in the trace.
\<close>

definition startMonitor_click_v1 :: "session \<Rightarrow> session" where
  "startMonitor_click_v1 s =
     (if faceMatcher s = None
      then s\<lparr>trace := trace s @ [Alert RegisterAFaceFirst]\<rparr>
      else
        let s1 = s\<lparr>monitoring := True, status := [MonitoringStarted],
                   trace := trace s @ [CallMonitorLoop]\<rparr>
        in s1\<lparr>listeners :=
                 addEventListener Click HandleInput
                   (addEventListener Mousemove HandleInput
                      (addEventListener Keydown HandleInput (listeners s1)))\<rparr>)"

text \<open>
  The \<^verbatim>\<open>try\<close> / \<^verbatim>\<open>catch\<close> of revision 2 around the muted play. When the play is rejected
  the rest of the \<^verbatim>\<open>try\<close> block is skipped, the assignment \<^verbatim>\<open>alertAudio.volume = 1\<close>
  included.
\<close>

definition audioUnlock :: "play_outcome \<Rightarrow> session \<Rightarrow> session" where
  "audioUnlock played s =
     (let s1 = s\<lparr>audioVolume := 0, trace := trace s @ [AudioRewind, AudioPlay 0]\<rparr>
      in case played of
           PlayResolved \<Rightarrow>
             s1\<lparr>audioVolume := 1, status := status s1 @ [AudioOk],
                trace := trace s1 @ [AudioPause, ConsoleLog]\<rparr>
         | PlayRejected \<Rightarrow>
             s1\<lparr>status := status s1 @ [AudioBlocked], trace := trace s1 @ [ConsoleError]\<rparr>)"

text \<open>The click handler of \<^verbatim>\<open>startMonitorBtn\<close>, revision 2.\<close>

definition startMonitor_click_v2 :: "play_outcome \<Rightarrow> session \<Rightarrow> session" where
  "startMonitor_click_v2 played s =
     (if faceMatcher s = None
      then s\<lparr>trace := trace s @ [Alert RegisterAFaceFirst]\<rparr>
      else
        let s1 = audioUnlock played s;
            s2 = s1\<lparr>monitoring := True, status := [MonitoringStarted],
                    trace := trace s1 @ [CallMonitorLoop]\<rparr>;
            removed = removeEventListener Click HandleInput
                        (removeEventListener Mousemove HandleInput
                           (removeEventListener Keydown HandleInput (listeners s2)))
        in s2\<lparr>listeners :=
                 addEventListener Click HandleInput
                   (addEventListener Mousemove HandleInput
                      (addEventListener Keydown HandleInput removed))\<rparr>)"

subsection \<open>The script as a whole\<close>

text \<open>
  The session when the script has been read: the variables as declared, and the one
  listener the top level registers (for \<^verbatim>\<open>visibilitychange\<close>). The status element starts
  with whatever the page holds, taken as empty.
\<close>

definition initial :: session where
  "initial =
     \<lparr>faceMatcher = None, monitoring = False, consecutiveNoFace = 0, ownerAbsent = None,
      isTabVisible = True, status = [], overlay = DisplayInitial, audioVolume = 1,
      listeners = [(Visibilitychange, VisibilityListener)], trace = []\<rparr>"

text \<open>
  The listener for \<^verbatim>\<open>visibilitychange\<close>, \<^verbatim>\<open>isTabVisible = !document.hidden\<close>, and the
  callback of the overlay's timer in revision 2.
\<close>

definition visibilityListener :: "bool \<Rightarrow> session \<Rightarrow> session" where
  "visibilityListener hidden s = s\<lparr>isTabVisible := \<not> hidden\<rparr>"

definition hideOverlay :: "session \<Rightarrow> session" where
  "hideOverlay s = s\<lparr>overlay := DisplayNone\<rparr>"

text \<open>
  What the host hands to a listener it invokes: the outcome of the audio play (for
  \<^verbatim>\<open>handleInput\<close>) and \<^verbatim>\<open>document.hidden\<close> (for the visibility listener).
\<close>

fun run_listener_v1 :: "play_outcome \<Rightarrow> bool \<Rightarrow> callback \<Rightarrow> session \<Rightarrow> session" where
  "run_listener_v1 played hidden HandleInput s = handleInput_v1 played s"
| "run_listener_v1 played hidden VisibilityListener s = visibilityListener hidden s"

fun run_listener_v2 :: "play_outcome \<Rightarrow> bool \<Rightarrow> callback \<Rightarrow> session \<Rightarrow> session" where
  "run_listener_v2 played hidden HandleInput s = handleInput_v2 played s"
| "run_listener_v2 played hidden VisibilityListener s = visibilityListener hidden s"

text \<open>
  One event of type \<open>t\<close> delivered to the document: every listener registered for \<open>t\<close>
  is invoked, in the order of registration.
\<close>

definition dispatch_v1 :: "play_outcome \<Rightarrow> bool \<Rightarrow> event_type \<Rightarrow> session \<Rightarrow> session" where
  "dispatch_v1 played hidden t s =
     fold (run_listener_v1 played hidden)
          (map snd (filter (\<lambda>l. fst l = t) (listeners s))) s"

definition dispatch_v2 :: "play_outcome \<Rightarrow> bool \<Rightarrow> event_type \<Rightarrow> session \<Rightarrow> session" where
  "dispatch_v2 played hidden t s =
     fold (run_listener_v2 played hidden)
          (map snd (filter (\<lambda>l. fst l = t) (listeners s))) s"

text \<open>
  What can happen to the session, one after the other: a click on the start button, an
  event delivered to the document, a finished monitoring cycle, a call of
  \<^verbatim>\<open>loadFaceMatcher\<close> (from \<^verbatim>\<open>init\<close> or after an enrollment). An exception that leaves a
  handler leaves the session as it was.
\<close>

datatype action =
    StartClick play_outcome
  | Deliver play_outcome bool event_type
  | Cycle "descriptor list"
  | Load "persisted option"

fun step_v1 :: "(matcher \<Rightarrow> descriptor \<Rightarrow> face_match) \<Rightarrow> action \<Rightarrow> session \<Rightarrow> session" where
  "step_v1 fbm (StartClick played) s = startMonitor_click_v1 s"
| "step_v1 fbm (Deliver played hidden t) s = dispatch_v1 played hidden t s"
| "step_v1 fbm (Cycle dets) s = monitorLoop fbm dets s"
| "step_v1 fbm (Load item) s = (case loadFaceMatcher item s of Inl e \<Rightarrow> s | Inr s' \<Rightarrow> s')"

fun step_v2 :: "(matcher \<Rightarrow> descriptor \<Rightarrow> face_match) \<Rightarrow> action \<Rightarrow> session \<Rightarrow> session" where
  "step_v2 fbm (StartClick played) s = startMonitor_click_v2 played s"
| "step_v2 fbm (Deliver played hidden t) s = dispatch_v2 played hidden t s"
| "step_v2 fbm (Cycle dets) s = monitorLoop fbm dets s"
| "step_v2 fbm (Load item) s = (case loadFaceMatcher item s of Inl e \<Rightarrow> s | Inr s' \<Rightarrow> s')"

text \<open>The session after a sequence of such steps from the start of the script.\<close>

definition run_v1 :: "(matcher \<Rightarrow> descriptor \<Rightarrow> face_match) \<Rightarrow> action list \<Rightarrow> session" where
  "run_v1 fbm acts = fold (step_v1 fbm) acts initial"

definition run_v2 :: "(matcher \<Rightarrow> descriptor \<Rightarrow> face_match) \<Rightarrow> action list \<Rightarrow> session" where
  "run_v2 fbm acts = fold (step_v2 fbm) acts initial"

text \<open>The number of \<^verbatim>\<open>alertAudio.play()\<close> calls in a trace.\<close>

definition plays :: "effect list \<Rightarrow> nat" where
  "plays tr = length (filter (\<lambda>e. case e of AudioPlay v \<Rightarrow> True | _ \<Rightarrow> False) tr)"

subsection \<open>Values used in the examples\<close>

definition one_face :: store where
  "one_face = \<lparr>no_mask = [[Number (Finite 0.1), Number (Finite 0.2)]], with_mask = []\<rparr>"

definition one_face_matcher :: matcher where
  "one_face_matcher =
     \<lparr>labeledDescriptors = [(''owner_no_mask'', [[Finite 0.1, Finite 0.2]])],
      distanceThreshold = 0.58\<rparr>"

text \<open>The session after one enrollment, before and after monitoring has started.\<close>

definition enrolled :: session where
  "enrolled = initial\<lparr>faceMatcher := Some one_face_matcher\<rparr>"

definition watching :: "nat \<Rightarrow> bool \<Rightarrow> session" where
  "watching n absent =
     enrolled\<lparr>monitoring := True, consecutiveNoFace := n, ownerAbsent := Some absent\<rparr>"

text \<open>
  An enrollment is loaded, the start button is clicked twice (the first unlock fails),
  and a cycle sees an empty frame.
\<close>

definition two_starts :: "action list" where
  "two_starts =
     [Load (Some (StoreText one_face)), StartClick PlayRejected, StartClick PlayResolved,
      Cycle []]"

text \<open>
  Stores with one enrolled face of 128 numbers: all of them 0.25, all of them negative
  zero, all of them \<^verbatim>\<open>NaN\<close>.
\<close>

definition quarter_face :: store where
  "quarter_face = \<lparr>no_mask = [replicate 128 (Number (Finite 0.25))], with_mask = []\<rparr>"

definition negzero_face :: store where
  "negzero_face = \<lparr>no_mask = [], with_mask = [replicate 128 (Number NegZero)]\<rparr>"

definition nan_face :: store where
  "nan_face = \<lparr>no_mask = [replicate 128 (Number NaN)], with_mask = []\<rparr>"

text \<open>
  An engine, or an engine's search for the nearest class, that answers every query with
  the same match.
\<close>

definition always :: "face_match \<Rightarrow> matcher \<Rightarrow> descriptor \<Rightarrow> face_match" where
  "always bm m d = bm"

section \<open>Properties\<close>

subsection \<open>The pass over the detections\<close>

lemma classify_ownerPresent:
  "ownerPresent (classify bm v) = (ownerPresent v \<or> owner_match bm)"
  by (auto simp: classify_def owner_match_def)

lemma fold_ownerPresent_None:
  "ownerPresent (fold (forEach_body fbm None) dets v) = ownerPresent v"
  by (induction dets arbitrary: v) (simp_all add: forEach_body_def)

lemma fold_ownerPresent_Some:
  "ownerPresent (fold (forEach_body fbm (Some m)) dets v) =
     (ownerPresent v \<or> (\<exists>d \<in> set dets. owner_match (fbm m d)))"
  by (induction dets arbitrary: v) (auto simp: forEach_body_def classify_ownerPresent)

lemma fold_ownerPresent:
  "ownerPresent (fold (forEach_body fbm fm) dets v) =
     (ownerPresent v \<or> (\<exists>m. fm = Some m \<and> (\<exists>d \<in> set dets. owner_match (fbm m d))))"
  by (cases fm) (simp_all add: fold_ownerPresent_None fold_ownerPresent_Some)

lemma counter_after_cycle:
  "monitoring s \<Longrightarrow>
   consecutiveNoFace (monitorLoop fbm dets s) =
     (if dets = [] then js_increment (consecutiveNoFace s) else 0)"
  by (simp add: monitorLoop_def Let_def)

lemma verdict_after_cycle:
  "monitoring s \<Longrightarrow>
   ownerAbsent (monitorLoop fbm dets s) =
     Some (NO_FACE_THRESHOLD \<le> consecutiveNoFace (monitorLoop fbm dets s) \<or>
           \<not> ownerPresent (if dets = [] then no_flags
                            else fold (forEach_body fbm (faceMatcher s)) dets no_flags))"
  by (simp add: monitorLoop_def Let_def)

lemma monitorLoop_idle: "\<not> monitoring s \<Longrightarrow> monitorLoop fbm dets s = s"
  by (simp add: monitorLoop_def)

subsection \<open>The verdict of a cycle\<close>

text \<open>
  C2. In every monitoring cycle, if the no-face counter stands at 10 or more when the
  verdict is derived, the cycle ends with \<open>ownerAbsent\<close> true, whatever the session was
  before; otherwise it ends with \<open>ownerAbsent\<close> the negation of the frame's
  \<open>ownerPresent\<close>, which is true exactly when a matcher exists and some detection of the
  frame has a best match with an owner label and a distance strictly below 0.58.
\<close>

theorem monitorLoop_verdict:
  assumes "monitoring s"
  shows "ownerAbsent (monitorLoop fbm dets s) =
           Some (if 10 \<le> consecutiveNoFace (monitorLoop fbm dets s) then True
                 else \<not> (\<exists>m d. faceMatcher s = Some m \<and> d \<in> set dets \<and>
                              is_owner_label (label (fbm m d)) \<and>
                              distance (fbm m d) < 0.58))"
  using assms
  by (auto simp: verdict_after_cycle NO_FACE_THRESHOLD_def fold_ownerPresent no_flags_def
      owner_match_def)

text \<open>
  The tenth empty frame in a row, after a cycle that had seen the owner: the verdict is
  absence.
\<close>

theorem monitorLoop_verdict_witness:
  "monitoring (watching 9 False) \<and>
   consecutiveNoFace
     (monitorLoop (always \<lparr>label = ''owner_mask'', distance = 0.2\<rparr>) [] (watching 9 False)) = 10 \<and>
   ownerAbsent
     (monitorLoop (always \<lparr>label = ''owner_mask'', distance = 0.2\<rparr>) [] (watching 9 False)) =
     Some True"
proof -
  have m: "monitoring (watching 9 False)"
    by (simp add: watching_def)
  have c: "consecutiveNoFace
     (monitorLoop (always \<lparr>label = ''owner_mask'', distance = 0.2\<rparr>) [] (watching 9 False)) = 10"
    using counter_after_cycle [OF m, of "always \<lparr>label = ''owner_mask'', distance = 0.2\<rparr>" "[]"]
    by (simp add: js_increment_def watching_def)
  show ?thesis
    using m c monitorLoop_verdict [OF m, of "always \<lparr>label = ''owner_mask'', distance = 0.2\<rparr>" "[]"]
    by simp
qed

text \<open>
  C4. In every monitoring cycle whose frame holds a detection whose best match has an
  owner label and a distance strictly below 0.58, the cycle ends with \<open>ownerAbsent\<close>
  false, whatever the counter and the verdict were before the cycle.
\<close>

theorem monitorLoop_owner_seen:
  assumes "monitoring s" and "faceMatcher s = Some m" and "d \<in> set dets"
    and "is_owner_label (label (fbm m d))" and "distance (fbm m d) < 0.58"
  shows "ownerAbsent (monitorLoop fbm dets s) = Some False"
proof -
  from assms(3) have ne: "dets \<noteq> []" by auto
  with assms(1) have "consecutiveNoFace (monitorLoop fbm dets s) = 0"
    by (simp add: counter_after_cycle)
  moreover have "ownerPresent (fold (forEach_body fbm (faceMatcher s)) dets no_flags)"
    using assms by (auto simp: fold_ownerPresent owner_match_def)
  ultimately show ?thesis
    using assms(1) ne by (simp add: verdict_after_cycle NO_FACE_THRESHOLD_def)
qed

text \<open>
  One detection matched as \<^verbatim>\<open>owner_no_mask\<close> at distance 0.3, after 25 empty frames and
  a verdict of absence.
\<close>

theorem monitorLoop_owner_seen_witness:
  "monitoring (watching 25 True) \<and>
   faceMatcher (watching 25 True) = Some one_face_matcher \<and>
   [Finite 0.1, Finite 0.2] \<in> set [[Finite 0.1, Finite 0.2]] \<and>
   is_owner_label
     (label (always \<lparr>label = ''owner_no_mask'', distance = 0.3\<rparr> one_face_matcher [Finite 0.1, Finite 0.2])) \<and>
   distance (always \<lparr>label = ''owner_no_mask'', distance = 0.3\<rparr> one_face_matcher [Finite 0.1, Finite 0.2])
     < 0.58 \<and>
   ownerAbsent
     (monitorLoop (always \<lparr>label = ''owner_no_mask'', distance = 0.3\<rparr>) [[Finite 0.1, Finite 0.2]]
        (watching 25 True)) = Some False"
proof -
  let ?fbm = "always \<lparr>label = ''owner_no_mask'', distance = 0.3\<rparr>"
  have h1: "monitoring (watching 25 True)"
    by (simp add: watching_def)
  have h2: "faceMatcher (watching 25 True) = Some one_face_matcher"
    by (simp add: watching_def enrolled_def)
  have h3: "[Finite 0.1, Finite 0.2] \<in> set [[Finite 0.1, Finite 0.2]]"
    by simp
  have h4: "is_owner_label (label (?fbm one_face_matcher [Finite 0.1, Finite 0.2]))"
    by (simp add: always_def is_owner_label_def)
  have h5: "distance (?fbm one_face_matcher [Finite 0.1, Finite 0.2]) < 0.58"
    by (simp add: always_def)
  show ?thesis
    using h1 h2 h3 h4 h5
      monitorLoop_owner_seen
        [where s = "watching 25 True" and m = one_face_matcher and d = "[Finite 0.1, Finite 0.2]"
           and dets = "[[Finite 0.1, Finite 0.2]]" and fbm = ?fbm, OF h1 h2 h3 h4 h5]
    by simp
qed

text \<open>
  C5. In every monitoring cycle whose frame holds at least one detection the no-face
  counter ends at 0, whether or not a detection matches an owner class; in a cycle whose
  frame holds none it is incremented (by one, below \<open>2 ^ 53\<close>); and the counter grows over
  a cycle only when the frame holds no detection.
\<close>

theorem monitorLoop_counter:
  assumes "monitoring s"
  shows "(dets \<noteq> [] \<longrightarrow> consecutiveNoFace (monitorLoop fbm dets s) = 0) \<and>
         (dets = [] \<longrightarrow>
            consecutiveNoFace (monitorLoop fbm dets s) = js_increment (consecutiveNoFace s)) \<and>
         (dets = [] \<and> consecutiveNoFace s < 2 ^ 53 \<longrightarrow>
            consecutiveNoFace (monitorLoop fbm dets s) = consecutiveNoFace s + 1) \<and>
         (consecutiveNoFace s < consecutiveNoFace (monitorLoop fbm dets s) \<longrightarrow> dets = [])"
  using assms by (auto simp: counter_after_cycle js_increment_def)

text \<open>
  A face that matches nobody (distance 0.9, label \<^verbatim>\<open>unknown\<close>) after 7 empty frames
  resets the counter; an empty frame after 7 empty frames makes it 8.
\<close>

theorem monitorLoop_counter_witness:
  "monitoring (watching 7 True) \<and>
   [[Finite 0.5, Finite 0.5]] \<noteq> [] \<and>
   consecutiveNoFace
     (monitorLoop (always \<lparr>label = ''unknown'', distance = 0.9\<rparr>) [[Finite 0.5, Finite 0.5]]
        (watching 7 True)) = 0 \<and>
   consecutiveNoFace (watching 7 True) < 2 ^ 53 \<and>
   consecutiveNoFace
     (monitorLoop (always \<lparr>label = ''unknown'', distance = 0.9\<rparr>) [] (watching 7 True)) = 8"
proof -
  let ?fbm = "always \<lparr>label = ''unknown'', distance = 0.9\<rparr>"
  have m: "monitoring (watching 7 True)"
    by (simp add: watching_def)
  have c: "consecutiveNoFace (watching 7 True) = 7"
    by (simp add: watching_def)
  show ?thesis
    using m c monitorLoop_counter [OF m, of "[[Finite 0.5, Finite 0.5]]" ?fbm]
      monitorLoop_counter [OF m, of "[]" ?fbm]
    by simp
qed

subsection \<open>The intruder flag\<close>

text \<open>
  What one detection does to the intruder flag, for any answer of the engine: the flag
  is set when a matcher exists, the label is not \<^verbatim>\<open>unknown\<close> and the detection does not
  count as the owner; a flag that is set stays set.
\<close>

lemma intruder_after_detection:
  "intruderDetected (forEach_body fbm fm det v) =
     (intruderDetected v \<or>
      (\<exists>m. fm = Some m \<and> label (fbm m det) \<noteq> ''unknown'' \<and>
           \<not> (is_owner_label (label (fbm m det)) \<and> distance (fbm m det) < 0.58)))"
  by (cases fm) (auto simp: forEach_body_def classify_def)

subsection \<open>The input handler\<close>

text \<open>
  C1. For every session and either outcome of the audio play, \<^verbatim>\<open>handleInput\<close> of both
  revisions does something exactly when \<open>ownerAbsent\<close> is true and \<open>isTabVisible\<close> is
  true. Then it writes the alarm message to the status, rewinds and plays the alert
  audio, and (revision 2) shows the overlay and sets its 5000 ms timer; otherwise it
  leaves the session as it is, with no effect at all.
\<close>

theorem handleInput_fires_iff:
  "(trace (handleInput_v1 played s) \<noteq> trace s) =
     (ownerAbsent s = Some True \<and> isTabVisible s) \<and>
   (trace (handleInput_v2 played s) \<noteq> trace s) =
     (ownerAbsent s = Some True \<and> isTabVisible s) \<and>
   (if ownerAbsent s = Some True \<and> isTabVisible s
    then status (handleInput_v1 played s) = [AlarmText] \<and>
         trace (handleInput_v1 played s) =
           trace s @ [AudioRewind, AudioPlay (audioVolume s)] @
           (case played of PlayResolved \<Rightarrow> [] | PlayRejected \<Rightarrow> [ConsoleLog]) \<and>
         status (handleInput_v2 played s) =
           AlarmHtml # (case played of PlayResolved \<Rightarrow> [] | PlayRejected \<Rightarrow> [AudioHint]) \<and>
         overlay (handleInput_v2 played s) = DisplayFlex \<and>
         trace (handleInput_v2 played s) =
           trace s @
           [ConsoleLog, SetTimeout HideOverlay 5000, AudioRewind, AudioPlay (audioVolume s)] @
           (case played of PlayResolved \<Rightarrow> [ConsoleLog] | PlayRejected \<Rightarrow> [ConsoleError])
    else handleInput_v1 played s = s \<and> handleInput_v2 played s = s)"
  by (cases "ownerAbsent s"; simp add: handleInput_v1_def handleInput_v2_def truthy_def)

text \<open>
  The four combinations, and the session in which no cycle has finished yet: only
  absence on a visible tab fires.
\<close>

theorem handleInput_fires_iff_witness:
  "trace (handleInput_v2 PlayResolved (watching 0 True)) \<noteq> trace (watching 0 True) \<and>
   handleInput_v2 PlayResolved (watching 0 False) = watching 0 False \<and>
   handleInput_v2 PlayResolved ((watching 0 True)\<lparr>isTabVisible := False\<rparr>) =
     (watching 0 True)\<lparr>isTabVisible := False\<rparr> \<and>
   handleInput_v2 PlayResolved ((watching 0 False)\<lparr>isTabVisible := False\<rparr>) =
     (watching 0 False)\<lparr>isTabVisible := False\<rparr> \<and>
   handleInput_v1 PlayRejected enrolled = enrolled \<and>
   trace (handleInput_v1 PlayRejected (watching 0 True)) =
     [AudioRewind, AudioPlay 1, ConsoleLog]"
  using handleInput_fires_iff [of PlayResolved "watching 0 True"]
    handleInput_fires_iff [of PlayResolved "watching 0 False"]
    handleInput_fires_iff [of PlayResolved "(watching 0 True)\<lparr>isTabVisible := False\<rparr>"]
    handleInput_fires_iff [of PlayResolved "(watching 0 False)\<lparr>isTabVisible := False\<rparr>"]
    handleInput_fires_iff [of PlayRejected enrolled]
    handleInput_fires_iff [of PlayRejected "watching 0 True"]
  by (simp add: watching_def enrolled_def initial_def)

subsection \<open>Loading the enrollment store\<close>

lemma loadFaceMatcher_empty_store:
  "read_stored item = Inr empty_store \<Longrightarrow>
   loadFaceMatcher item s = Inr (s\<lparr>faceMatcher := None\<rparr>)"
  by (simp add: loadFaceMatcher_def empty_store_def)

text \<open>
  C3, as amended. When the storage key is absent, or holds a string that parses to a
  value that is false in a condition, the loaded store is the empty store and
  \<^verbatim>\<open>loadFaceMatcher\<close> returns with no matcher; when the key holds a string that parses to
  a store, that store is loaded and \<^verbatim>\<open>loadFaceMatcher\<close> returns, with no matcher exactly
  when both sequences are empty; when the key holds a string that is not JSON, the
  \<^verbatim>\<open>SyntaxError\<close> of \<^verbatim>\<open>JSON.parse\<close> leaves \<^verbatim>\<open>loadFaceMatcher\<close>.
\<close>

theorem loadFaceMatcher_outcomes:
  "read_stored None = Inr empty_store \<and>
   loadFaceMatcher None s = Inr (s\<lparr>faceMatcher := None\<rparr>) \<and>
   read_stored (Some FalsyText) = Inr empty_store \<and>
   loadFaceMatcher (Some FalsyText) s = Inr (s\<lparr>faceMatcher := None\<rparr>) \<and>
   read_stored (Some (StoreText st)) = Inr st \<and>
   (case loadFaceMatcher (Some (StoreText st)) s of
      Inl e \<Rightarrow> False
    | Inr s' \<Rightarrow> (faceMatcher s' = None) = (no_mask st = [] \<and> with_mask st = [])) \<and>
   read_stored (Some Unparseable) = Inl SyntaxError \<and>
   loadFaceMatcher (Some Unparseable) s = Inl SyntaxError"
  by (simp add: read_stored_def JSON_parse_def loadFaceMatcher_def empty_store_def Let_def)

text \<open>
  At the start of the script: an absent key gives no matcher, a stored enrollment gives a
  matcher.
\<close>

theorem loadFaceMatcher_outcomes_witness:
  "loadFaceMatcher None initial = Inr initial \<and>
   loadFaceMatcher (Some (StoreText one_face)) initial =
     Inr (enrolled\<lparr>trace := [ConsoleLog]\<rparr>)"
  using loadFaceMatcher_outcomes [of initial one_face]
  by (simp add: initial_def enrolled_def one_face_def one_face_matcher_def
      loadFaceMatcher_def read_stored_def JSON_parse_def Float32Array_def empty_store_def)

text \<open>
  C3 as stated fails: with a stored string that \<^verbatim>\<open>JSON.parse\<close> rejects, reading the store
  and \<^verbatim>\<open>loadFaceMatcher\<close> end in the \<^verbatim>\<open>SyntaxError\<close> instead of returning the empty store.
\<close>

theorem loadFaceMatcher_unparseable:
  "read_stored (Some Unparseable) = Inl SyntaxError \<and>
   loadFaceMatcher (Some Unparseable) initial = Inl SyntaxError"
  by (simp add: read_stored_def JSON_parse_def loadFaceMatcher_def)

subsection \<open>The start button\<close>

text \<open>
  C8. A click on the start button while there is no matcher (the store is empty) only
  shows the refusal: in both revisions the session is as before but for the
  \<^verbatim>\<open>alert\<close>, so the monitoring flag stays false and \<^verbatim>\<open>monitorLoop\<close> is not called.
\<close>

theorem start_refused_without_matcher:
  assumes "faceMatcher s = None" and "\<not> monitoring s"
  shows "startMonitor_click_v1 s = s\<lparr>trace := trace s @ [Alert RegisterAFaceFirst]\<rparr> \<and>
         startMonitor_click_v2 played s = s\<lparr>trace := trace s @ [Alert RegisterAFaceFirst]\<rparr> \<and>
         \<not> monitoring (startMonitor_click_v1 s) \<and>
         \<not> monitoring (startMonitor_click_v2 played s) \<and>
         CallMonitorLoop \<notin> set (drop (length (trace s)) (trace (startMonitor_click_v1 s))) \<and>
         CallMonitorLoop \<notin>
           set (drop (length (trace s)) (trace (startMonitor_click_v2 played s)))"
  using assms by (simp add: startMonitor_click_v1_def startMonitor_click_v2_def)

text \<open>The first click of a session with nothing stored.\<close>

theorem start_refused_without_matcher_witness:
  "faceMatcher initial = None \<and> \<not> monitoring initial \<and>
   startMonitor_click_v1 initial = initial\<lparr>trace := [Alert RegisterAFaceFirst]\<rparr> \<and>
   startMonitor_click_v2 PlayResolved initial = initial\<lparr>trace := [Alert RegisterAFaceFirst]\<rparr>"
proof -
  have h1: "faceMatcher initial = None" and h2: "\<not> monitoring initial"
    by (simp_all add: initial_def)
  have t: "trace initial = []"
    by (simp add: initial_def)
  show ?thesis
    using h1 h2 t start_refused_without_matcher [OF h1 h2, of PlayResolved]
    by simp
qed

text \<open>
  C7, as amended. In revision 2, every click on the start button that is not refused (a
  matcher exists) first makes exactly one play of the alert audio at volume 0; when the
  play succeeds the audio is paused and the volume set back to 1; when it fails the
  failure is caught and logged. In both cases the handler goes on: it sets the monitoring
  flag and calls \<^verbatim>\<open>monitorLoop\<close>. A refused click plays nothing, and the start handler of
  revision 1 never plays the audio.
\<close>

theorem startMonitor_click_unlock:
  "(faceMatcher s \<noteq> None \<longrightarrow>
      trace (startMonitor_click_v2 played s) =
        trace s @ [AudioRewind, AudioPlay 0] @
        (case played of PlayResolved \<Rightarrow> [AudioPause, ConsoleLog]
                      | PlayRejected \<Rightarrow> [ConsoleError]) @
        [CallMonitorLoop] \<and>
      monitoring (startMonitor_click_v2 played s) \<and>
      (played = PlayResolved \<longrightarrow> audioVolume (startMonitor_click_v2 played s) = 1)) \<and>
   (faceMatcher s = None \<longrightarrow>
      plays (trace (startMonitor_click_v2 played s)) = plays (trace s)) \<and>
   plays (trace (startMonitor_click_v1 s)) = plays (trace s)"
  by (cases played)
     (simp_all add: startMonitor_click_v1_def startMonitor_click_v2_def audioUnlock_def
        Let_def plays_def)

text \<open>After one enrollment, with the play rejected and with the play resolved.\<close>

theorem startMonitor_click_unlock_witness:
  "faceMatcher enrolled \<noteq> None \<and>
   trace (startMonitor_click_v2 PlayRejected enrolled) =
     [AudioRewind, AudioPlay 0, ConsoleError, CallMonitorLoop] \<and>
   monitoring (startMonitor_click_v2 PlayRejected enrolled) \<and>
   trace (startMonitor_click_v2 PlayResolved enrolled) =
     [AudioRewind, AudioPlay 0, AudioPause, ConsoleLog, CallMonitorLoop] \<and>
   audioVolume (startMonitor_click_v2 PlayResolved enrolled) = 1 \<and>
   faceMatcher initial = None \<and>
   plays (trace (startMonitor_click_v2 PlayResolved initial)) = 0"
proof -
  have h: "faceMatcher enrolled \<noteq> None" and n: "faceMatcher initial = None"
    and t: "trace enrolled = []" "trace initial = []"
    by (simp_all add: enrolled_def initial_def)
  show ?thesis
    using h n t startMonitor_click_unlock [of enrolled PlayRejected]
      startMonitor_click_unlock [of enrolled PlayResolved]
      startMonitor_click_unlock [of initial PlayResolved]
    by (simp add: plays_def)
qed

text \<open>
  C7 as stated fails. The start handler of revision 1 starts monitoring without touching
  the audio; a refused click of revision 2 plays nothing; and when the unlock of
  revision 2 fails, the note appended to the status is replaced by the start message
  before the handler ends.
\<close>

theorem startMonitor_click_no_unlock:
  "trace (startMonitor_click_v1 enrolled) = [CallMonitorLoop] \<and>
   monitoring (startMonitor_click_v1 enrolled) \<and>
   trace (startMonitor_click_v2 PlayResolved initial) = [Alert RegisterAFaceFirst] \<and>
   status (audioUnlock PlayRejected enrolled) = [AudioBlocked] \<and>
   status (startMonitor_click_v2 PlayRejected enrolled) = [MonitoringStarted]"
  by (simp add: startMonitor_click_v1_def startMonitor_click_v2_def audioUnlock_def
      enrolled_def initial_def Let_def)

text \<open>
  When the muted play is rejected, the volume stays at 0: the assignment that restores
  it is inside the \<^verbatim>\<open>try\<close> block, after the \<^verbatim>\<open>await\<close>.
\<close>

lemma audioUnlock_rejected_volume: "audioVolume (audioUnlock PlayRejected s) = 0"
  by (simp add: audioUnlock_def)

subsection \<open>Registration of the input handler\<close>

lemma distinct_addEventListener:
  "distinct ls \<Longrightarrow> distinct (addEventListener t f ls)"
  by (simp add: addEventListener_def)

lemma distinct_removeEventListener:
  "distinct ls \<Longrightarrow> distinct (removeEventListener t f ls)"
  by (simp add: removeEventListener_def)

text \<open>
  Removing before adding, as revision 2 does, keeps a list free of duplicates even if
  adding did not look for the listener first.
\<close>

lemma distinct_remove_then_append:
  "distinct ls \<Longrightarrow> distinct (removeEventListener t f ls @ [(t, f)])"
  by (simp add: removeEventListener_def)

lemma set_addEventListener:
  "set (addEventListener t f ls) = insert (t, f) (set ls)"
  by (auto simp: addEventListener_def)

lemma listeners_handleInput_v1: "listeners (handleInput_v1 played s) = listeners s"
  by (simp add: handleInput_v1_def)

lemma listeners_handleInput_v2: "listeners (handleInput_v2 played s) = listeners s"
  by (simp add: handleInput_v2_def)

lemma listeners_fold_v1:
  "listeners (fold (run_listener_v1 played hidden) cs s) = listeners s"
proof (induction cs arbitrary: s)
  case Nil
  show ?case by simp
next
  case (Cons c cs)
  then show ?case
    by (cases c) (simp_all add: listeners_handleInput_v1 visibilityListener_def)
qed

lemma listeners_fold_v2:
  "listeners (fold (run_listener_v2 played hidden) cs s) = listeners s"
proof (induction cs arbitrary: s)
  case Nil
  show ?case by simp
next
  case (Cons c cs)
  then show ?case
    by (cases c) (simp_all add: listeners_handleInput_v2 visibilityListener_def)
qed

lemma listeners_monitorLoop: "listeners (monitorLoop fbm dets s) = listeners s"
  by (simp add: monitorLoop_def Let_def)

lemma listeners_loadFaceMatcher:
  "loadFaceMatcher item s = Inr s' \<Longrightarrow> listeners s' = listeners s"
  by (auto simp: loadFaceMatcher_def Let_def split: sum.splits if_splits)

lemma listeners_audioUnlock: "listeners (audioUnlock played s) = listeners s"
  by (cases played) (simp_all add: audioUnlock_def Let_def)

lemma distinct_start_v1:
  "distinct (listeners s) \<Longrightarrow> distinct (listeners (startMonitor_click_v1 s))"
  by (simp add: startMonitor_click_v1_def Let_def distinct_addEventListener)

lemma distinct_start_v2:
  "distinct (listeners s) \<Longrightarrow> distinct (listeners (startMonitor_click_v2 played s))"
  by (simp add: startMonitor_click_v2_def Let_def distinct_addEventListener
      distinct_removeEventListener listeners_audioUnlock)

lemma registered_start_v1:
  assumes "faceMatcher s \<noteq> None" and "t \<noteq> Visibilitychange"
  shows "(t, HandleInput) \<in> set (listeners (startMonitor_click_v1 s))"
  using assms by (cases t) (auto simp: startMonitor_click_v1_def Let_def set_addEventListener)

lemma registered_start_v2:
  assumes "faceMatcher s \<noteq> None" and "t \<noteq> Visibilitychange"
  shows "(t, HandleInput) \<in> set (listeners (startMonitor_click_v2 played s))"
  using assms by (cases t) (auto simp: startMonitor_click_v2_def Let_def set_addEventListener)

lemma distinct_step_v1:
  "distinct (listeners s) \<Longrightarrow> distinct (listeners (step_v1 fbm a s))"
  by (cases a)
     (auto simp: distinct_start_v1 dispatch_v1_def listeners_fold_v1 listeners_monitorLoop
        listeners_loadFaceMatcher split: sum.splits)

lemma distinct_step_v2:
  "distinct (listeners s) \<Longrightarrow> distinct (listeners (step_v2 fbm a s))"
  by (cases a)
     (auto simp: distinct_start_v2 dispatch_v2_def listeners_fold_v2 listeners_monitorLoop
        listeners_loadFaceMatcher split: sum.splits)

lemma distinct_run_v1: "distinct (listeners (run_v1 fbm acts))"
proof -
  have "distinct (listeners s) \<Longrightarrow> distinct (listeners (fold (step_v1 fbm) acts s))" for s
    by (induction acts arbitrary: s) (simp_all add: distinct_step_v1)
  then show ?thesis by (simp add: run_v1_def initial_def)
qed

lemma distinct_run_v2: "distinct (listeners (run_v2 fbm acts))"
proof -
  have "distinct (listeners s) \<Longrightarrow> distinct (listeners (fold (step_v2 fbm) acts s))" for s
    by (induction acts arbitrary: s) (simp_all add: distinct_step_v2)
  then show ?thesis by (simp add: run_v2_def initial_def)
qed

lemma count_list_distinct: "distinct xs \<Longrightarrow> count_list xs x \<le> 1"
  by (induction xs) (auto simp: count_list_0_iff)

lemma count_list_distinct_mem: "distinct xs \<Longrightarrow> x \<in> set xs \<Longrightarrow> count_list xs x = 1"
  by (induction xs) (auto simp: count_list_0_iff)

lemma distinct_callbacks:
  "distinct ls \<Longrightarrow> distinct (map snd (filter (\<lambda>l. fst l = t) ls))"
  by (induction ls) (auto simp: rev_image_eqI)

lemma plays_handleInput_v1:
  "plays (trace (handleInput_v1 played s)) \<le> plays (trace s) + 1"
  by (cases played) (simp_all add: handleInput_v1_def plays_def)

lemma plays_handleInput_v2:
  "plays (trace (handleInput_v2 played s)) \<le> plays (trace s) + 1"
  by (cases played) (simp_all add: handleInput_v2_def plays_def)

text \<open>Each invocation of the input handler plays the audio at most once.\<close>

lemma plays_fold_v1:
  "plays (trace (fold (run_listener_v1 played hidden) cs s)) \<le>
     plays (trace s) + count_list cs HandleInput"
proof (induction cs arbitrary: s)
  case Nil
  show ?case by simp
next
  case (Cons c cs)
  show ?case
  proof (cases c)
    case HandleInput
    have "plays (trace (fold (run_listener_v1 played hidden) cs (handleInput_v1 played s))) \<le>
            plays (trace (handleInput_v1 played s)) + count_list cs HandleInput"
      by (rule Cons.IH)
    also have "\<dots> \<le> plays (trace s) + 1 + count_list cs HandleInput"
      using plays_handleInput_v1 [of played s] by simp
    finally show ?thesis using HandleInput by simp
  next
    case VisibilityListener
    then show ?thesis
      using Cons.IH [of "visibilityListener hidden s"] by (simp add: visibilityListener_def)
  qed
qed

lemma plays_fold_v2:
  "plays (trace (fold (run_listener_v2 played hidden) cs s)) \<le>
     plays (trace s) + count_list cs HandleInput"
proof (induction cs arbitrary: s)
  case Nil
  show ?case by simp
next
  case (Cons c cs)
  show ?case
  proof (cases c)
    case HandleInput
    have "plays (trace (fold (run_listener_v2 played hidden) cs (handleInput_v2 played s))) \<le>
            plays (trace (handleInput_v2 played s)) + count_list cs HandleInput"
      by (rule Cons.IH)
    also have "\<dots> \<le> plays (trace s) + 1 + count_list cs HandleInput"
      using plays_handleInput_v2 [of played s] by simp
    finally show ?thesis using HandleInput by simp
  next
    case VisibilityListener
    then show ?thesis
      using Cons.IH [of "visibilityListener hidden s"] by (simp add: visibilityListener_def)
  qed
qed

lemma plays_dispatch_v1:
  assumes "distinct (listeners s)"
  shows "plays (trace (dispatch_v1 played hidden t s)) \<le> plays (trace s) + 1"
proof -
  let ?cs = "map snd (filter (\<lambda>l. fst l = t) (listeners s))"
  have "count_list ?cs HandleInput \<le> 1"
    using assms by (intro count_list_distinct distinct_callbacks)
  moreover have "plays (trace (dispatch_v1 played hidden t s)) \<le>
                   plays (trace s) + count_list ?cs HandleInput"
    unfolding dispatch_v1_def by (rule plays_fold_v1)
  ultimately show ?thesis by linarith
qed

lemma plays_dispatch_v2:
  assumes "distinct (listeners s)"
  shows "plays (trace (dispatch_v2 played hidden t s)) \<le> plays (trace s) + 1"
proof -
  let ?cs = "map snd (filter (\<lambda>l. fst l = t) (listeners s))"
  have "count_list ?cs HandleInput \<le> 1"
    using assms by (intro count_list_distinct distinct_callbacks)
  moreover have "plays (trace (dispatch_v2 played hidden t s)) \<le>
                   plays (trace s) + count_list ?cs HandleInput"
    unfolding dispatch_v2_def by (rule plays_fold_v2)
  ultimately show ?thesis by linarith
qed

text \<open>
  C10. After every sequence of steps of the script (clicks on the start button, repeated
  or not, among events, cycles and loads), in both revisions, the document holds at
  most one registration of \<^verbatim>\<open>handleInput\<close> per event type, so one delivered event plays
  the alert audio at most once; and a click on the start button that is not refused
  leaves exactly one registration for each of \<^verbatim>\<open>keydown\<close>, \<^verbatim>\<open>mousemove\<close> and \<^verbatim>\<open>click\<close>.
\<close>

theorem handleInput_registered_once:
  "count_list (listeners (run_v1 fbm acts)) (t, HandleInput) \<le> 1 \<and>
   plays (trace (dispatch_v1 played hidden t (run_v1 fbm acts))) \<le>
     plays (trace (run_v1 fbm acts)) + 1 \<and>
   (faceMatcher (run_v1 fbm acts) \<noteq> None \<and> t \<noteq> Visibilitychange \<longrightarrow>
      count_list (listeners (startMonitor_click_v1 (run_v1 fbm acts))) (t, HandleInput) = 1) \<and>
   count_list (listeners (run_v2 fbm acts)) (t, HandleInput) \<le> 1 \<and>
   plays (trace (dispatch_v2 played hidden t (run_v2 fbm acts))) \<le>
     plays (trace (run_v2 fbm acts)) + 1 \<and>
   (faceMatcher (run_v2 fbm acts) \<noteq> None \<and> t \<noteq> Visibilitychange \<longrightarrow>
      count_list (listeners (startMonitor_click_v2 played (run_v2 fbm acts)))
        (t, HandleInput) = 1)"
proof -
  have d1: "distinct (listeners (run_v1 fbm acts))"
    by (rule distinct_run_v1)
  have d2: "distinct (listeners (run_v2 fbm acts))"
    by (rule distinct_run_v2)
  have e1: "count_list (listeners (startMonitor_click_v1 (run_v1 fbm acts))) (t, HandleInput) = 1"
    if "faceMatcher (run_v1 fbm acts) \<noteq> None" and "t \<noteq> Visibilitychange"
    using that by (intro count_list_distinct_mem distinct_start_v1 d1 registered_start_v1)
  have e2: "count_list (listeners (startMonitor_click_v2 played (run_v2 fbm acts)))
              (t, HandleInput) = 1"
    if "faceMatcher (run_v2 fbm acts) \<noteq> None" and "t \<noteq> Visibilitychange"
    using that by (intro count_list_distinct_mem distinct_start_v2 d2 registered_start_v2)
  show ?thesis
    using count_list_distinct [OF d1] count_list_distinct [OF d2]
      plays_dispatch_v1 [OF d1] plays_dispatch_v2 [OF d2] e1 e2
    by blast
qed

lemma run_v1_two_starts:
  "run_v1 fbm two_starts =
     \<lparr>faceMatcher = Some one_face_matcher, monitoring = True, consecutiveNoFace = 1,
      ownerAbsent = Some True, isTabVisible = True, status = [OwnerAway],
      overlay = DisplayInitial, audioVolume = 1,
      listeners = [(Visibilitychange, VisibilityListener), (Keydown, HandleInput),
                   (Mousemove, HandleInput), (Click, HandleInput)],
      trace = [ConsoleLog, CallMonitorLoop, CallMonitorLoop, SetTimeout NextCycle 50]\<rparr>"
  by (simp add: run_v1_def two_starts_def initial_def loadFaceMatcher_def read_stored_def
      JSON_parse_def Float32Array_def one_face_def one_face_matcher_def startMonitor_click_v1_def Let_def
      addEventListener_def monitorLoop_def js_increment_def NO_FACE_THRESHOLD_def no_flags_def)

lemma run_v2_two_starts:
  "run_v2 fbm two_starts =
     \<lparr>faceMatcher = Some one_face_matcher, monitoring = True, consecutiveNoFace = 1,
      ownerAbsent = Some True, isTabVisible = True, status = [OwnerAway],
      overlay = DisplayInitial, audioVolume = 1,
      listeners = [(Visibilitychange, VisibilityListener), (Keydown, HandleInput),
                   (Mousemove, HandleInput), (Click, HandleInput)],
      trace = [ConsoleLog, AudioRewind, AudioPlay 0, ConsoleError, CallMonitorLoop,
               AudioRewind, AudioPlay 0, AudioPause, ConsoleLog, CallMonitorLoop,
               SetTimeout NextCycle 50]\<rparr>"
  by (simp add: run_v2_def two_starts_def initial_def loadFaceMatcher_def read_stored_def
      JSON_parse_def Float32Array_def one_face_def one_face_matcher_def startMonitor_click_v2_def audioUnlock_def
      Let_def addEventListener_def removeEventListener_def monitorLoop_def js_increment_def
      NO_FACE_THRESHOLD_def no_flags_def)

text \<open>
  After an enrollment, two clicks on the start button and a cycle that saw no face, a
  click on the page plays the alert audio once.
\<close>

theorem handleInput_registered_once_witness:
  "faceMatcher (run_v2 (always \<lparr>label = ''unknown'', distance = 0.9\<rparr>) two_starts) \<noteq> None \<and>
   Click \<noteq> Visibilitychange \<and>
   count_list (listeners (run_v2 (always \<lparr>label = ''unknown'', distance = 0.9\<rparr>) two_starts))
     (Click, HandleInput) = 1 \<and>
   plays (trace (dispatch_v2 PlayResolved False Click
                   (run_v2 (always \<lparr>label = ''unknown'', distance = 0.9\<rparr>) two_starts))) =
     plays (trace (run_v2 (always \<lparr>label = ''unknown'', distance = 0.9\<rparr>) two_starts)) + 1 \<and>
   count_list
     (listeners (startMonitor_click_v2 PlayResolved
                   (run_v2 (always \<lparr>label = ''unknown'', distance = 0.9\<rparr>) two_starts)))
     (Click, HandleInput) = 1 \<and>
   faceMatcher (run_v1 (always \<lparr>label = ''unknown'', distance = 0.9\<rparr>) two_starts) \<noteq> None \<and>
   count_list
     (listeners (startMonitor_click_v1
                   (run_v1 (always \<lparr>label = ''unknown'', distance = 0.9\<rparr>) two_starts)))
     (Click, HandleInput) = 1"
proof -
  let ?fbm = "always \<lparr>label = ''unknown'', distance = 0.9\<rparr>"
  have m1: "faceMatcher (run_v1 ?fbm two_starts) \<noteq> None"
    by (simp add: run_v1_two_starts)
  have m2: "faceMatcher (run_v2 ?fbm two_starts) \<noteq> None"
    by (simp add: run_v2_two_starts)
  have c: "count_list (listeners (run_v2 ?fbm two_starts)) (Click, HandleInput) = 1"
    by (simp add: run_v2_two_starts)
  have p: "plays (trace (dispatch_v2 PlayResolved False Click (run_v2 ?fbm two_starts))) =
             plays (trace (run_v2 ?fbm two_starts)) + 1"
    by (simp add: run_v2_two_starts dispatch_v2_def handleInput_v2_def truthy_def plays_def)
  show ?thesis
    using m1 m2 c p handleInput_registered_once [of ?fbm two_starts Click PlayResolved False]
    by simp
qed

subsection \<open>The intruder flag under the engine's threshold\<close>

lemma honours_threshold_thresholded: "honours_threshold (thresholded nearest)"
  by (simp add: honours_threshold_def thresholded_def)

lemma faceMatcher_handleInput_v1: "faceMatcher (handleInput_v1 played s) = faceMatcher s"
  by (simp add: handleInput_v1_def)

lemma faceMatcher_handleInput_v2: "faceMatcher (handleInput_v2 played s) = faceMatcher s"
  by (simp add: handleInput_v2_def)

lemma faceMatcher_fold_v1:
  "faceMatcher (fold (run_listener_v1 played hidden) cs s) = faceMatcher s"
proof (induction cs arbitrary: s)
  case Nil
  show ?case by simp
next
  case (Cons c cs)
  then show ?case
    by (cases c) (simp_all add: faceMatcher_handleInput_v1 visibilityListener_def)
qed

lemma faceMatcher_fold_v2:
  "faceMatcher (fold (run_listener_v2 played hidden) cs s) = faceMatcher s"
proof (induction cs arbitrary: s)
  case Nil
  show ?case by simp
next
  case (Cons c cs)
  then show ?case
    by (cases c) (simp_all add: faceMatcher_handleInput_v2 visibilityListener_def)
qed

lemma faceMatcher_monitorLoop: "faceMatcher (monitorLoop fbm dets s) = faceMatcher s"
  by (simp add: monitorLoop_def Let_def)

lemma faceMatcher_start_v1: "faceMatcher (startMonitor_click_v1 s) = faceMatcher s"
  by (simp add: startMonitor_click_v1_def Let_def)

lemma faceMatcher_start_v2: "faceMatcher (startMonitor_click_v2 played s) = faceMatcher s"
  by (cases played) (simp_all add: startMonitor_click_v2_def audioUnlock_def Let_def)

text \<open>Every matcher the script builds has the threshold 0.58.\<close>

lemma threshold_loadFaceMatcher:
  "loadFaceMatcher item s = Inr s' \<Longrightarrow> faceMatcher s' = Some m \<Longrightarrow> distanceThreshold m = 0.58"
  by (auto simp: loadFaceMatcher_def Let_def split: sum.splits if_splits)

lemma threshold_step_v1:
  assumes "\<And>m. faceMatcher s = Some m \<Longrightarrow> distanceThreshold m = 0.58"
    and "faceMatcher (step_v1 fbm a s) = Some m"
  shows "distanceThreshold m = 0.58"
proof (cases a)
  case (StartClick played)
  with assms show ?thesis by (simp add: faceMatcher_start_v1)
next
  case (Deliver played hidden t)
  with assms show ?thesis by (simp add: dispatch_v1_def faceMatcher_fold_v1)
next
  case (Cycle dets)
  with assms show ?thesis by (simp add: faceMatcher_monitorLoop)
next
  case (Load item)
  show ?thesis
  proof (cases "loadFaceMatcher item s")
    case (Inl e)
    with Load assms show ?thesis by simp
  next
    case (Inr s')
    with Load assms(2) have "faceMatcher s' = Some m" by simp
    with Inr show ?thesis by (rule threshold_loadFaceMatcher)
  qed
qed

lemma threshold_step_v2:
  assumes "\<And>m. faceMatcher s = Some m \<Longrightarrow> distanceThreshold m = 0.58"
    and "faceMatcher (step_v2 fbm a s) = Some m"
  shows "distanceThreshold m = 0.58"
proof (cases a)
  case (StartClick played)
  with assms show ?thesis by (simp add: faceMatcher_start_v2)
next
  case (Deliver played hidden t)
  with assms show ?thesis by (simp add: dispatch_v2_def faceMatcher_fold_v2)
next
  case (Cycle dets)
  with assms show ?thesis by (simp add: faceMatcher_monitorLoop)
next
  case (Load item)
  show ?thesis
  proof (cases "loadFaceMatcher item s")
    case (Inl e)
    with Load assms show ?thesis by simp
  next
    case (Inr s')
    with Load assms(2) have "faceMatcher s' = Some m" by simp
    with Inr show ?thesis by (rule threshold_loadFaceMatcher)
  qed
qed

lemma threshold_fold_v1:
  "(\<And>m. faceMatcher s = Some m \<Longrightarrow> distanceThreshold m = 0.58) \<Longrightarrow>
   faceMatcher (fold (step_v1 fbm) acts s) = Some m \<Longrightarrow> distanceThreshold m = 0.58"
proof (induction acts arbitrary: s m)
  case Nil
  then show ?case by simp
next
  case (Cons a acts)
  have "\<And>m'. faceMatcher (step_v1 fbm a s) = Some m' \<Longrightarrow> distanceThreshold m' = 0.58"
    using Cons.prems(1) by (rule threshold_step_v1)
  then show ?case
    using Cons.IH [of "step_v1 fbm a s" m] Cons.prems(2) by simp
qed

lemma threshold_fold_v2:
  "(\<And>m. faceMatcher s = Some m \<Longrightarrow> distanceThreshold m = 0.58) \<Longrightarrow>
   faceMatcher (fold (step_v2 fbm) acts s) = Some m \<Longrightarrow> distanceThreshold m = 0.58"
proof (induction acts arbitrary: s m)
  case Nil
  then show ?case by simp
next
  case (Cons a acts)
  have "\<And>m'. faceMatcher (step_v2 fbm a s) = Some m' \<Longrightarrow> distanceThreshold m' = 0.58"
    using Cons.prems(1) by (rule threshold_step_v2)
  then show ?case
    using Cons.IH [of "step_v2 fbm a s" m] Cons.prems(2) by simp
qed

lemma threshold_run_v1:
  "faceMatcher (run_v1 fbm acts) = Some m \<Longrightarrow> distanceThreshold m = 0.58"
  unfolding run_v1_def by (rule threshold_fold_v1) (simp_all add: initial_def)

lemma threshold_run_v2:
  "faceMatcher (run_v2 fbm acts) = Some m \<Longrightarrow> distanceThreshold m = 0.58"
  unfolding run_v2_def by (rule threshold_fold_v2) (simp_all add: initial_def)

text \<open>
  With a matcher of threshold 0.58 and an engine that honours it, an answer with an owner
  label is below 0.58, so the \<^verbatim>\<open>else if\<close> is reached only by other labels.
\<close>

lemma intruder_with_threshold:
  assumes "honours_threshold fbm" and "distanceThreshold m = 0.58"
  shows "intruderDetected (forEach_body fbm (Some m) det v) =
           (intruderDetected v \<or>
            (label (fbm m det) \<noteq> ''unknown'' \<and> \<not> is_owner_label (label (fbm m det))))"
proof -
  have "distance (fbm m det) < 0.58" if "label (fbm m det) \<noteq> ''unknown''"
  proof -
    from assms(1) that have "distance (fbm m det) < distanceThreshold m"
      unfolding honours_threshold_def by blast
    then show ?thesis
      unfolding assms(2) .
  qed
  then show ?thesis
    by (auto simp: intruder_after_detection)
qed

text \<open>
  C6. In every session the script can reach, in both revisions, with an engine whose
  \<^verbatim>\<open>findBestMatch\<close> keeps a label only below the matcher's threshold: for every detection
  processed in a monitoring cycle, the intruder flag is set exactly when a matcher exists
  and the best match's label is not \<^verbatim>\<open>unknown\<close> and not one of the two owner labels (a
  flag that is set stays set). So a best match carrying an owner label never sets the
  flag, whatever its distance.
\<close>

theorem intruderDetected_iff_other_label:
  assumes "honours_threshold fbm"
  shows "intruderDetected (forEach_body fbm (faceMatcher (run_v1 fbm acts)) det v) =
           (intruderDetected v \<or>
            (\<exists>m. faceMatcher (run_v1 fbm acts) = Some m \<and>
                 label (fbm m det) \<noteq> ''unknown'' \<and> \<not> is_owner_label (label (fbm m det)))) \<and>
         intruderDetected (forEach_body fbm (faceMatcher (run_v2 fbm acts)) det v) =
           (intruderDetected v \<or>
            (\<exists>m. faceMatcher (run_v2 fbm acts) = Some m \<and>
                 label (fbm m det) \<noteq> ''unknown'' \<and> \<not> is_owner_label (label (fbm m det)))) \<and>
         (\<forall>m. faceMatcher (run_v1 fbm acts) = Some m \<and> is_owner_label (label (fbm m det)) \<longrightarrow>
              intruderDetected (forEach_body fbm (faceMatcher (run_v1 fbm acts)) det v) =
              intruderDetected v) \<and>
         (\<forall>m. faceMatcher (run_v2 fbm acts) = Some m \<and> is_owner_label (label (fbm m det)) \<longrightarrow>
              intruderDetected (forEach_body fbm (faceMatcher (run_v2 fbm acts)) det v) =
              intruderDetected v)"
proof -
  have a: "intruderDetected (forEach_body fbm (faceMatcher s) det v) =
             (intruderDetected v \<or>
              (\<exists>m. faceMatcher s = Some m \<and>
                   label (fbm m det) \<noteq> ''unknown'' \<and> \<not> is_owner_label (label (fbm m det))))"
    if "\<And>m. faceMatcher s = Some m \<Longrightarrow> distanceThreshold m = 0.58" for s :: session
  proof (cases "faceMatcher s")
    case None
    then show ?thesis by (simp add: forEach_body_def)
  next
    case (Some m)
    with that have "distanceThreshold m = 0.58" by simp
    with assms Some show ?thesis by (simp add: intruder_with_threshold)
  qed
  have e1: "intruderDetected (forEach_body fbm (faceMatcher (run_v1 fbm acts)) det v) =
              (intruderDetected v \<or>
               (\<exists>m. faceMatcher (run_v1 fbm acts) = Some m \<and>
                    label (fbm m det) \<noteq> ''unknown'' \<and> \<not> is_owner_label (label (fbm m det))))"
    by (rule a) (rule threshold_run_v1)
  have e2: "intruderDetected (forEach_body fbm (faceMatcher (run_v2 fbm acts)) det v) =
              (intruderDetected v \<or>
               (\<exists>m. faceMatcher (run_v2 fbm acts) = Some m \<and>
                    label (fbm m det) \<noteq> ''unknown'' \<and> \<not> is_owner_label (label (fbm m det))))"
    by (rule a) (rule threshold_run_v2)
  have o1: "intruderDetected (forEach_body fbm (faceMatcher (run_v1 fbm acts)) det v) =
              intruderDetected v"
    if "faceMatcher (run_v1 fbm acts) = Some m" and "is_owner_label (label (fbm m det))" for m
    using that unfolding e1 by auto
  have o2: "intruderDetected (forEach_body fbm (faceMatcher (run_v2 fbm acts)) det v) =
              intruderDetected v"
    if "faceMatcher (run_v2 fbm acts) = Some m" and "is_owner_label (label (fbm m det))" for m
    using that unfolding e2 by auto
  show ?thesis
    using e1 e2 o1 o2 by blast
qed

text \<open>
  After an enrollment and two starts, a nearest class \<^verbatim>\<open>owner_mask\<close> at distance 0.9 is
  reported as \<^verbatim>\<open>unknown\<close> and does not set the flag, one at distance 0.2 keeps its owner
  label and does not set it either, and a nearest class \<^verbatim>\<open>guest\<close> at distance 0.2 sets it.
\<close>

theorem intruderDetected_iff_other_label_witness:
  "honours_threshold (thresholded (always \<lparr>label = ''owner_mask'', distance = 0.9\<rparr>)) \<and>
   \<not> intruderDetected
       (forEach_body (thresholded (always \<lparr>label = ''owner_mask'', distance = 0.9\<rparr>))
          (faceMatcher
             (run_v2 (thresholded (always \<lparr>label = ''owner_mask'', distance = 0.9\<rparr>)) two_starts))
          [Finite 0.3, Finite 0.4] no_flags) \<and>
   honours_threshold (thresholded (always \<lparr>label = ''owner_mask'', distance = 0.2\<rparr>)) \<and>
   faceMatcher (run_v1 (thresholded (always \<lparr>label = ''owner_mask'', distance = 0.2\<rparr>)) two_starts) =
     Some one_face_matcher \<and>
   is_owner_label
     (label (thresholded (always \<lparr>label = ''owner_mask'', distance = 0.2\<rparr>) one_face_matcher
               [Finite 0.3, Finite 0.4])) \<and>
   \<not> intruderDetected
       (forEach_body (thresholded (always \<lparr>label = ''owner_mask'', distance = 0.2\<rparr>))
          (faceMatcher
             (run_v1 (thresholded (always \<lparr>label = ''owner_mask'', distance = 0.2\<rparr>)) two_starts))
          [Finite 0.3, Finite 0.4] no_flags) \<and>
   honours_threshold (thresholded (always \<lparr>label = ''guest'', distance = 0.2\<rparr>)) \<and>
   intruderDetected
     (forEach_body (thresholded (always \<lparr>label = ''guest'', distance = 0.2\<rparr>))
        (faceMatcher
           (run_v2 (thresholded (always \<lparr>label = ''guest'', distance = 0.2\<rparr>)) two_starts))
        [Finite 0.3, Finite 0.4] no_flags)"
proof -
  let ?far = "thresholded (always \<lparr>label = ''owner_mask'', distance = 0.9\<rparr>)"
  let ?near = "thresholded (always \<lparr>label = ''owner_mask'', distance = 0.2\<rparr>)"
  let ?guest = "thresholded (always \<lparr>label = ''guest'', distance = 0.2\<rparr>)"
  have h1: "honours_threshold ?far" and h2: "honours_threshold ?near"
    and h3: "honours_threshold ?guest"
    by (rule honours_threshold_thresholded)+
  have l1: "label (?far one_face_matcher [Finite 0.3, Finite 0.4]) = ''unknown''"
    by (simp add: thresholded_def always_def one_face_matcher_def)
  have l2: "label (?near one_face_matcher [Finite 0.3, Finite 0.4]) = ''owner_mask''"
    by (simp add: thresholded_def always_def one_face_matcher_def)
  have l3: "label (?guest one_face_matcher [Finite 0.3, Finite 0.4]) = ''guest''"
    by (simp add: thresholded_def always_def one_face_matcher_def)
  show ?thesis
    using h1 h2 h3 l1 l2 l3
      intruderDetected_iff_other_label [OF h1, of two_starts "[Finite 0.3, Finite 0.4]" no_flags]
      intruderDetected_iff_other_label [OF h2, of two_starts "[Finite 0.3, Finite 0.4]" no_flags]
      intruderDetected_iff_other_label [OF h3, of two_starts "[Finite 0.3, Finite 0.4]" no_flags]
    by (simp add: run_v1_two_starts run_v2_two_starts is_owner_label_def no_flags_def)
qed

subsection \<open>Saving and loading the store\<close>

lemma stringify_element_fixed: "(stringify_element e = e) = json_exact e"
proof (cases e)
  case (Number x)
  then show ?thesis by (cases x) simp_all
next
  case Null
  then show ?thesis by simp
qed

lemma map_stringify_fixed:
  "(map stringify_element d = d) = (\<forall>e \<in> set d. json_exact e)"
  by (induction d) (auto simp: stringify_element_fixed)

lemma map_map_stringify_fixed:
  "(map (map stringify_element) ds = ds) = (\<forall>d \<in> set ds. \<forall>e \<in> set d. json_exact e)"
  by (induction ds) (auto simp: map_stringify_fixed)

lemma read_stored_save_stored:
  "read_stored (save_stored S) =
     Inr \<lparr>no_mask = map (map stringify_element) (no_mask S),
          with_mask = map (map stringify_element) (with_mask S)\<rparr>"
  by (simp add: read_stored_def save_stored_def JSON_stringify_def JSON_parse_def)

text \<open>
  C9, as amended. Saving a store and then loading yields a store equal to it exactly
  when every element of its embeddings is a finite number other than negative zero (or
  \<^verbatim>\<open>null\<close>): for every such store the round trip is lossless, whatever the number and
  length of the embeddings; in any other store, negative zero comes back as 0 and
  \<^verbatim>\<open>NaN\<close> and the infinities come back as \<^verbatim>\<open>null\<close>.
\<close>

theorem save_load_round_trip:
  "(read_stored (save_stored S) = Inr S) =
     (\<forall>d \<in> set (no_mask S) \<union> set (with_mask S). \<forall>e \<in> set d. json_exact e)"
proof -
  have "(read_stored (save_stored S) = Inr S) =
          (map (map stringify_element) (no_mask S) = no_mask S \<and>
           map (map stringify_element) (with_mask S) = with_mask S)"
    by (cases S) (simp add: read_stored_save_stored)
  then show ?thesis
    by (auto simp: map_map_stringify_fixed)
qed

text \<open>A store with one embedding of 128 numbers, all 0.25, comes back as it was saved.\<close>

theorem save_load_round_trip_witness:
  "read_stored (save_stored quarter_face) = Inr quarter_face"
  using save_load_round_trip [of quarter_face]
  by (simp add: quarter_face_def)

text \<open>
  C9 as stated fails: an embedding of 128 negative zeros comes back as 128 zeros, and an
  embedding of 128 \<^verbatim>\<open>NaN\<close> comes back as 128 \<^verbatim>\<open>null\<close>, which \<^verbatim>\<open>loadFaceMatcher\<close> turns
  into zeros.
\<close>

theorem save_load_loses_negative_zero:
  "read_stored (save_stored negzero_face) =
     Inr \<lparr>no_mask = [], with_mask = [replicate 128 (Number (Finite 0))]\<rparr> \<and>
   read_stored (save_stored negzero_face) \<noteq> Inr negzero_face \<and>
   read_stored (save_stored nan_face) = Inr \<lparr>no_mask = [replicate 128 Null], with_mask = []\<rparr> \<and>
   read_stored (save_stored nan_face) \<noteq> Inr nan_face"
  by (simp add: read_stored_save_stored negzero_face_def nan_face_def)

end
